theory Spec2Isabelle
  imports Main "HOL-Library.Word"
begin

unbundle bit_operations_syntax

section \<open>keymaster getcreds: the client of \<^verbatim>\<open>cmd/getcreds/main.go\<close>\<close>

text \<open>
  The program generates an RSA key pair, logs in to the first reachable server of a
  configured list, asks it for an X.509 and an SSH certificate and writes the SSH
  certificate next to the key. Everything outside the program (the network, the file
  system's failures, the YAML parser, the key generator, the terminal) is a parameter
  of the model, collected in the record \<open>env\<close>; what the program changes (requests sent,
  log calls, files) is the record \<open>world\<close>, passed through every function.
\<close>

subsection \<open>Data\<close>

text \<open>A Go \<^verbatim>\<open>string\<close> and a Go \<^verbatim>\<open>[]byte\<close> are byte sequences; a nil slice is \<open>None\<close>.\<close>

type_synonym bytes = string

text \<open>
  A Go \<^verbatim>\<open>error\<close> value, by its message. \<open>ErrNotExist\<close> is the one kind of error the program
  tells apart (\<^verbatim>\<open>os.IsNotExist\<close>).
\<close>

datatype error = Error string | ErrNotExist string

fun msg :: "error \<Rightarrow> string" where
  "msg (Error m) = m"
| "msg (ErrNotExist p) = p @ '': no such file or directory''"

fun os_IsNotExist :: "error option \<Rightarrow> bool" where
  "os_IsNotExist (Some (ErrNotExist p)) = True"
| "os_IsNotExist e = False"

record baseConfig =
  Gen_Cert_URLS :: string

record AppConfigFile =
  Base :: baseConfig

record user =
  Username :: string
  HomeDir :: string

text \<open>
  A \<^verbatim>\<open>crypto.Signer\<close> (here always an \<^verbatim>\<open>*rsa.PrivateKey\<close>), seen through the three encodings
  the program takes of it: \<^verbatim>\<open>x509.MarshalPKCS1PrivateKey\<close>, \<^verbatim>\<open>x509.MarshalPKIXPublicKey\<close> of
  its public half, and \<^verbatim>\<open>ssh.NewPublicKey\<close> followed by \<^verbatim>\<open>ssh.MarshalAuthorizedKey\<close>.
\<close>

record signer =
  pkcs1 :: bytes
  pkix :: "error + bytes"
  authorizedKey :: "error + bytes"

type_synonym cookie = "string \<times> string"

text \<open>One part of a multipart body, as \<^verbatim>\<open>multipart.Writer.CreateFormFile\<close> starts it.\<close>

record form_file =
  fieldname :: string
  filename :: string
  content :: string

record tls_Config =
  RootCAs :: "bytes list option"
  MinVersion :: nat

record http_Client =
  TLSClientConfig :: tls_Config
  Timeout :: nat

record http_Request =
  Method :: string
  URL :: string
  ContentType :: "string option"
  BasicAuth :: "(string \<times> string) option"
  ReqCookies :: "cookie list"
  ReqBody :: "form_file list option"

text \<open>
  A response: \<open>Cookies\<close> is what \<^verbatim>\<open>resp.Cookies()\<close> returns, \<open>Body\<close> what
  \<^verbatim>\<open>ioutil.ReadAll(resp.Body)\<close> returns (the bytes read, never nil, and the read error).
\<close>

record http_Response =
  StatusCode :: int
  Status :: string
  Cookies :: "cookie list"
  Body :: "bytes \<times> error option"

text \<open>A file: its permission bits (\<^verbatim>\<open>os.FileMode\<close>, a \<^verbatim>\<open>uint32\<close>) and its bytes.\<close>

record os_file =
  mode :: "32 word"
  content_of :: bytes

record filesys =
  files :: "string \<rightharpoonup> os_file"
  umask :: "32 word"

datatype fs_op =
    OpStat string
  | OpReadFile string
  | OpRemove string
  | OpCreate string
  | OpChmod string "32 word"
  | OpWrite string
  | OpWriteFile string

text \<open>
  A call of the \<^verbatim>\<open>log\<close> package: \<^verbatim>\<open>log.Printf\<close> with its format and arguments,
  \<^verbatim>\<open>log.Println\<close> and \<^verbatim>\<open>log.Fatal\<close> with the message of the error they print.
\<close>

datatype log_call = Printf string "string list" | Println string | Fatal string

record world =
  sent :: "http_Request list"
  logged :: "log_call list"
  printed :: "string list"
  fs :: filesys
  fs_hist :: "filesys list"

text \<open>
  The environment. \<open>client_Do\<close> answers a request knowing every request sent before it, so
  a server may keep state between requests. \<open>fs_fault\<close> makes a file operation fail where
  the files alone would let it succeed (permissions, a full disk); a failed operation
  leaves the files as they were.
\<close>

record env =
  flag_config :: string
  yaml_Unmarshal :: "bytes \<Rightarrow> error + AppConfigFile"
  user_Current :: "error + user"
  gopass_GetPasswd :: "error + bytes"
  rsa_GenerateKey :: "nat \<Rightarrow> error + signer"
  pem_Encode :: "string \<Rightarrow> bytes \<Rightarrow> bytes"
  filepath_Join :: "string list \<Rightarrow> string"
  fs_fault :: "fs_op \<Rightarrow> error option"
  multipart_boundary :: string
  newRequest_err :: "string \<Rightarrow> string \<Rightarrow> error option"
  client_Do :: "http_Client \<Rightarrow> http_Request list \<Rightarrow> http_Request \<Rightarrow> error + http_Response"

definition DEFAULT_KEYS_LOCATION :: string where
  "DEFAULT_KEYS_LOCATION = ''/.ssh/''"

definition RSA_KEY_SIZE :: nat where
  "RSA_KEY_SIZE = 2048"

definition FILE_PREFIX :: string where
  "FILE_PREFIX = ''fubar''"

subsection \<open>Logging and the network\<close>

definition log_Printf :: "string \<Rightarrow> string list \<Rightarrow> world \<Rightarrow> world" where
  "log_Printf fmt args w = w\<lparr>logged := logged w @ [Printf fmt args]\<rparr>"

definition log_Println :: "error \<Rightarrow> world \<Rightarrow> world" where
  "log_Println err w = w\<lparr>logged := logged w @ [Println (msg err)]\<rparr>"

definition fmt_Printf :: "string \<Rightarrow> world \<Rightarrow> world" where
  "fmt_Printf s w = w\<lparr>printed := printed w @ [s]\<rparr>"

text \<open>\<^verbatim>\<open>http.NewRequest\<close>: fails on a method or URL it cannot parse, else a bare request.\<close>

definition http_NewRequest ::
  "env \<Rightarrow> string \<Rightarrow> string \<Rightarrow> form_file list option \<Rightarrow> error + http_Request" where
  "http_NewRequest E method urlStr body =
     (case newRequest_err E method urlStr of
        Some err \<Rightarrow> Inl err
      | None \<Rightarrow> Inr \<lparr>Method = method, URL = urlStr, ContentType = None, BasicAuth = None,
                    ReqCookies = [], ReqBody = body\<rparr>)"

definition AddCookie :: "http_Request \<Rightarrow> cookie \<Rightarrow> http_Request" where
  "AddCookie req c = req\<lparr>ReqCookies := ReqCookies req @ [c]\<rparr>"

text \<open>\<^verbatim>\<open>client.Do(req)\<close>: the request goes out, the environment answers.\<close>

definition Do :: "env \<Rightarrow> http_Client \<Rightarrow> http_Request \<Rightarrow> world \<Rightarrow> (error + http_Response) \<times> world" where
  "Do E client req w = (client_Do E client (sent w) req, w\<lparr>sent := sent w @ [req]\<rparr>)"

subsection \<open>Certificate requests\<close>

text \<open>
  \<^verbatim>\<open>createKeyBodyRequest\<close>: a multipart body with one file part. Writing into the
  \<^verbatim>\<open>bytes.Buffer\<close> cannot fail, so only \<^verbatim>\<open>http.NewRequest\<close> can return an error.
\<close>

definition createKeyBodyRequest :: "env \<Rightarrow> string \<Rightarrow> string \<Rightarrow> string \<Rightarrow> error + http_Request" where
  "createKeyBodyRequest E method urlStr filedata =
     (let bodyBuf = [\<lparr>fieldname = ''pubkeyfile'', filename = ''somefilename.pub'',
                      content = filedata\<rparr>];
          contentType = ''multipart/form-data; boundary='' @ multipart_boundary E
      in case http_NewRequest E method urlStr (Some bodyBuf) of
           Inl err \<Rightarrow> Inl err
         | Inr req \<Rightarrow> Inr (req\<lparr>ContentType := Some contentType\<rparr>))"

text \<open>
  \<^verbatim>\<open>doCertRequest\<close> returns the Go pair \<^verbatim>\<open>([]byte, error)\<close>. On a status other than 200 the
  source returns \<^verbatim>\<open>nil, err\<close> with the \<^verbatim>\<open>err\<close> of \<^verbatim>\<open>client.Do\<close>, which is nil on that path.
\<close>

definition doCertRequest ::
  "env \<Rightarrow> http_Client \<Rightarrow> cookie list \<Rightarrow> string \<Rightarrow> string \<Rightarrow> world
     \<Rightarrow> (bytes option \<times> error option) \<times> world" where
  "doCertRequest E client authCookies url filedata w =
     (case createKeyBodyRequest E ''POST'' url filedata of
        Inl err \<Rightarrow> ((None, Some err), w)
      | Inr req0 \<Rightarrow>
          (let req = foldl AddCookie req0 authCookies in
           case Do E client req w of
             (Inl err, w1) \<Rightarrow> ((None, Some err), log_Printf ''Failure to do x509 req'' [] w1)
           | (Inr resp, w1) \<Rightarrow>
               (let err = None in
                if StatusCode resp \<noteq> 200
                then ((None, err), log_Printf ''got error from call %s'' [Status resp] w1)
                else ((Some (fst (Body resp)), snd (Body resp)), w1))))"

text \<open>
  \<^verbatim>\<open>getCertsFromServer\<close> returns \<^verbatim>\<open>(sshCert, x509Cert, err)\<close>. As in \<^verbatim>\<open>doCertRequest\<close>, the
  return on a login status other than 200 passes on the nil \<^verbatim>\<open>err\<close> of \<^verbatim>\<open>client.Do\<close>.
\<close>

definition getCertsFromServer ::
  "env \<Rightarrow> signer \<Rightarrow> string \<Rightarrow> bytes \<Rightarrow> string \<Rightarrow> tls_Config \<Rightarrow> world
     \<Rightarrow> (bytes option \<times> bytes option \<times> error option) \<times> world" where
  "getCertsFromServer E signer userName password baseUrl tlsConfig w =
     (let client = \<lparr>TLSClientConfig = tlsConfig, Timeout = 5\<rparr>;
          loginUrl = baseUrl @ ''/api/v0/login''
      in case http_NewRequest E ''POST'' loginUrl None of
           Inl err \<Rightarrow> ((None, None, Some err), w)
         | Inr req0 \<Rightarrow>
             (let req = req0\<lparr>BasicAuth := Some (userName, password)\<rparr> in
              case Do E client req w of
                (Inl err, w1) \<Rightarrow>
                  ((None, None, Some err),
                   log_Println err (log_Printf ''got error from req'' [] w1))
              | (Inr loginResp, w1) \<Rightarrow>
                  (let err = None in
                   if StatusCode loginResp \<noteq> 200
                   then ((None, None, err),
                         log_Printf ''got error from call %s'' [Status loginResp] w1)
                   else if length (Cookies loginResp) < 1
                   then ((None, None, Some (Error ''No cookies from login'')), w1)
                   else
                     (case pkix signer of
                        Inl err \<Rightarrow> ((None, None, Some err), w1)
                      | Inr derKey \<Rightarrow>
                          (let pemKey = pem_Encode E ''PUBLIC KEY'' derKey in
                           case doCertRequest E client (Cookies loginResp)
                                  (baseUrl @ ''/certgen/'' @ userName @ ''?type=x509'') pemKey w1 of
                             ((x509Cert, Some err), w2) \<Rightarrow> ((None, None, Some err), w2)
                           | ((x509Cert, None), w2) \<Rightarrow>
                               (case authorizedKey signer of
                                  Inl err \<Rightarrow> ((None, None, Some err), w2)
                                | Inr sshAuthFile \<Rightarrow>
                                    (case doCertRequest E client (Cookies loginResp)
                                            (baseUrl @ ''/certgen/'' @ userName @ ''?type=ssh'')
                                            sshAuthFile w2 of
                                       ((sshCert, Some err), w3) \<Rightarrow> ((None, None, Some err), w3)
                                     | ((sshCert, None), w3) \<Rightarrow>
                                         ((sshCert, x509Cert, None), w3))))))))"

subsection \<open>The failover loop\<close>

text \<open>
  The \<^verbatim>\<open>for\<close> loop of \<^verbatim>\<open>getCertFromTargetUrls\<close> over the remaining URLs; its result is the
  pair of the variables \<^verbatim>\<open>success\<close> and \<^verbatim>\<open>cert\<close> when the loop is left. \<open>attempting_fmt\<close> is the
  format of the line logged for each URL, \<^verbatim>\<open>%s\<close> between two single quotes (byte 0x27).
\<close>

definition attempting_fmt :: string where
  "attempting_fmt = ''attempting to target '' @ [CHR 0x27] @ ''%s'' @ [CHR 0x27]"

fun targetUrls_loop ::
  "env \<Rightarrow> signer \<Rightarrow> string \<Rightarrow> bytes \<Rightarrow> tls_Config \<Rightarrow> string list \<Rightarrow> world
     \<Rightarrow> (bool \<times> bytes option) \<times> world" where
  "targetUrls_loop E signer userName password tlsConfig [] w = ((False, None), w)"
| "targetUrls_loop E signer userName password tlsConfig (baseUrl # rest) w =
     (let targetUrl = baseUrl @ userName;
          w1 = log_Printf attempting_fmt [targetUrl] w
      in case getCertsFromServer E signer userName password baseUrl tlsConfig w1 of
           ((sshCert, x509Cert, Some err), w2) \<Rightarrow>
             targetUrls_loop E signer userName password tlsConfig rest (log_Println err w2)
         | ((sshCert, x509Cert, None), w2) \<Rightarrow> ((True, sshCert), w2))"

definition getCertFromTargetUrls ::
  "env \<Rightarrow> signer \<Rightarrow> string \<Rightarrow> string \<Rightarrow> bytes \<Rightarrow> string list \<Rightarrow> bytes list option \<Rightarrow> world
     \<Rightarrow> (bytes option \<times> error option) \<times> world" where
  "getCertFromTargetUrls E signer pubKeyFilename userName password targetUrls rootCAs w =
     (let tlsConfig = \<lparr>RootCAs = rootCAs, MinVersion = 0x0303\<rparr> in
      case targetUrls_loop E signer userName password tlsConfig targetUrls w of
        ((success, cert), w1) \<Rightarrow>
          if \<not> success
          then ((None, Some (Error ''Failed to get creds'')),
                log_Printf ''failed to get creds'' [] w1)
          else ((cert, None), w1))"

subsection \<open>Files\<close>

text \<open>
  Every call that may change a file appends the files as they were before it to
  \<open>fs_hist\<close>, so the states a file goes through can be read off afterwards.
\<close>

definition fs_step :: "(filesys \<Rightarrow> filesys) \<Rightarrow> world \<Rightarrow> world" where
  "fs_step f w = w\<lparr>fs := f (fs w), fs_hist := fs_hist w @ [fs w]\<rparr>"

definition os_Stat :: "env \<Rightarrow> string \<Rightarrow> world \<Rightarrow> error option" where
  "os_Stat E name w =
     (case fs_fault E (OpStat name) of
        Some err \<Rightarrow> Some err
      | None \<Rightarrow> (case files (fs w) name of None \<Rightarrow> Some (ErrNotExist name) | Some f \<Rightarrow> None))"

definition ioutil_ReadFile :: "env \<Rightarrow> string \<Rightarrow> world \<Rightarrow> error + bytes" where
  "ioutil_ReadFile E name w =
     (case fs_fault E (OpReadFile name) of
        Some err \<Rightarrow> Inl err
      | None \<Rightarrow> (case files (fs w) name of
                   None \<Rightarrow> Inl (ErrNotExist name)
                 | Some f \<Rightarrow> Inr (content_of f)))"

definition os_Remove :: "env \<Rightarrow> string \<Rightarrow> world \<Rightarrow> error option \<times> world" where
  "os_Remove E name w =
     (case fs_fault E (OpRemove name) of
        Some err \<Rightarrow> (Some err, fs_step id w)
      | None \<Rightarrow>
          (case files (fs w) name of
             None \<Rightarrow> (Some (ErrNotExist name), fs_step id w)
           | Some f \<Rightarrow> (None, fs_step (\<lambda>s. s\<lparr>files := (files s)(name := None)\<rparr>) w)))"

text \<open>
  \<^verbatim>\<open>os.Create\<close> is \<^verbatim>\<open>OpenFile(name, O_RDWR|O_CREATE|O_TRUNC, 0666)\<close>: an existing file is
  emptied and keeps its mode, a new one gets mode 0666 (\<open>0x1B6\<close>) less the umask.
\<close>

definition os_Create :: "env \<Rightarrow> string \<Rightarrow> world \<Rightarrow> error option \<times> world" where
  "os_Create E name w =
     (case fs_fault E (OpCreate name) of
        Some err \<Rightarrow> (Some err, fs_step id w)
      | None \<Rightarrow>
          (None, fs_step (\<lambda>s. s\<lparr>files := (files s)(name \<mapsto>
                   (case files s name of
                      None \<Rightarrow> \<lparr>mode = 0x1B6 AND NOT (umask s), content_of = []\<rparr>
                    | Some f \<Rightarrow> f\<lparr>content_of := []\<rparr>))\<rparr>) w))"

definition File_Chmod :: "env \<Rightarrow> string \<Rightarrow> 32 word \<Rightarrow> world \<Rightarrow> error option \<times> world" where
  "File_Chmod E name m w =
     (case fs_fault E (OpChmod name m) of
        Some err \<Rightarrow> (Some err, fs_step id w)
      | None \<Rightarrow>
          (None, fs_step (\<lambda>s. s\<lparr>files := (case files s name of
                                              None \<Rightarrow> files s
                                            | Some f \<Rightarrow> (files s)(name \<mapsto> f\<lparr>mode := m\<rparr>))\<rparr>) w))"

text \<open>\<^verbatim>\<open>pem.Encode(f, block)\<close>: the PEM text of the block is appended to the open file.\<close>

definition pem_Encode_to :: "env \<Rightarrow> string \<Rightarrow> string \<Rightarrow> bytes \<Rightarrow> world \<Rightarrow> error option \<times> world" where
  "pem_Encode_to E name blockType der w =
     (case fs_fault E (OpWrite name) of
        Some err \<Rightarrow> (Some err, fs_step id w)
      | None \<Rightarrow>
          (None, fs_step (\<lambda>s. s\<lparr>files := (case files s name of
                   None \<Rightarrow> files s
                 | Some f \<Rightarrow> (files s)(name \<mapsto>
                              f\<lparr>content_of := content_of f @ pem_Encode E blockType der\<rparr>))\<rparr>) w))"

text \<open>
  \<^verbatim>\<open>ioutil.WriteFile\<close> is \<^verbatim>\<open>OpenFile(name, O_WRONLY|O_CREATE|O_TRUNC, perm)\<close> and a write.
\<close>

definition ioutil_WriteFile ::
  "env \<Rightarrow> string \<Rightarrow> bytes \<Rightarrow> 32 word \<Rightarrow> world \<Rightarrow> error option \<times> world" where
  "ioutil_WriteFile E name data perm w =
     (case fs_fault E (OpWriteFile name) of
        Some err \<Rightarrow> (Some err, fs_step id w)
      | None \<Rightarrow>
          (None, fs_step (\<lambda>s. s\<lparr>files := (files s)(name \<mapsto>
                   (case files s name of
                      None \<Rightarrow> \<lparr>mode = perm AND NOT (umask s), content_of = data\<rparr>
                    | Some f \<Rightarrow> f\<lparr>content_of := data\<rparr>))\<rparr>) w))"

subsection \<open>Key pair, configuration, user\<close>

text \<open>
  Where every caller checks \<^verbatim>\<open>err\<close> before it looks at the value, a Go result
  \<^verbatim>\<open>(v, err)\<close> is a sum, \<open>Inl\<close> the error. Mode 0600 is \<open>0x180\<close>, mode 0644 is \<open>0x1A4\<close>.
\<close>

definition genKeyPair :: "env \<Rightarrow> string \<Rightarrow> world \<Rightarrow> (error + signer \<times> string) \<times> world" where
  "genKeyPair E privateKeyPath w =
     (case rsa_GenerateKey E RSA_KEY_SIZE of
        Inl err \<Rightarrow> (Inl err, w)
      | Inr privateKey \<Rightarrow>
          (let pubKeyPath = privateKeyPath @ ''.pub'';
               w1 = snd (os_Remove E privateKeyPath w);
               w2 = snd (os_Remove E pubKeyPath w1)
           in case os_Create E privateKeyPath w2 of
                (Some err, w3) \<Rightarrow> (Inl err, log_Printf ''Failed to save privkey'' [] w3)
              | (None, w3) \<Rightarrow>
                  (case File_Chmod E privateKeyPath 0x180 w3 of
                     (Some err, w4) \<Rightarrow> (Inl err, log_Printf ''Failed to change file mode'' [] w4)
                   | (None, w4) \<Rightarrow>
                       (case pem_Encode_to E privateKeyPath ''RSA PRIVATE KEY''
                               (pkcs1 privateKey) w4 of
                          (Some err, w5) \<Rightarrow> (Inl err, w5)
                        | (None, w5) \<Rightarrow>
                            (case authorizedKey privateKey of
                               Inl err \<Rightarrow> (Inl err, w5)
                             | Inr pub \<Rightarrow>
                                 (case ioutil_WriteFile E pubKeyPath pub 0x1A4 w5 of
                                    (Some err, w6) \<Rightarrow> (Inl err, w6)
                                  | (None, w6) \<Rightarrow> (Inr (privateKey, pubKeyPath), w6)))))))"

definition loadVerifyConfigFile :: "env \<Rightarrow> string \<Rightarrow> world \<Rightarrow> error + AppConfigFile" where
  "loadVerifyConfigFile E configFilename w =
     (if os_IsNotExist (os_Stat E configFilename w)
      then Inl (Error ''mising config file failure'')
      else case ioutil_ReadFile E configFilename w of
             Inl err \<Rightarrow> Inl (Error ''cannot read config file'')
           | Inr source \<Rightarrow>
               (case yaml_Unmarshal E source of
                  Inl err \<Rightarrow> Inl (Error ''Cannot parse config file'')
                | Inr config \<Rightarrow>
                    if length (Gen_Cert_URLS (Base config)) < 1
                    then Inl (Error ''Invalid Config file... no place get the certs'')
                    else Inr config))"

definition getUserHomeDir :: "user \<Rightarrow> error + string" where
  "getUserHomeDir usr = Inr (HomeDir usr)"

definition getUserInfoAndCreds :: "env \<Rightarrow> world \<Rightarrow> (error + user \<times> bytes) \<times> world" where
  "getUserInfoAndCreds E w =
     (case user_Current E of
        Inl err \<Rightarrow> (Inl err, log_Printf ''cannot get current user info'' [] w)
      | Inr usr \<Rightarrow>
          (let userName = Username usr;
               w1 = fmt_Printf (''Password for '' @ userName @ '': '') w
           in case gopass_GetPasswd E of
                Inl err \<Rightarrow> (Inl err, w1)
              | Inr password \<Rightarrow> (Inr (usr, password), w1)))"

subsection \<open>The program\<close>

text \<open>\<^verbatim>\<open>strings.Split(s, sep)\<close> for a separator of one byte.\<close>

fun strings_Split :: "string \<Rightarrow> char \<Rightarrow> string list" where
  "strings_Split [] sep = [[]]"
| "strings_Split (c # cs) sep =
     (if c = sep then [] # strings_Split cs sep
      else (case strings_Split cs sep of
              [] \<Rightarrow> [[c]]
            | x # xs \<Rightarrow> (c # x) # xs))"

text \<open>
  The process ends with an exit status: 0 when \<^verbatim>\<open>main\<close> returns, 1 after \<^verbatim>\<open>log.Fatal\<close>,
  2 after a \<^verbatim>\<open>panic\<close>.
\<close>

definition log_Fatal :: "error \<Rightarrow> world \<Rightarrow> int \<times> world" where
  "log_Fatal err w = (1, w\<lparr>logged := logged w @ [Fatal (msg err)]\<rparr>)"

definition panic :: "error \<Rightarrow> world \<Rightarrow> int \<times> world" where
  "panic err w = (2, w)"

definition main :: "env \<Rightarrow> world \<Rightarrow> int \<times> world" where
  "main E w =
     (case loadVerifyConfigFile E (flag_config E) w of
        Inl err \<Rightarrow> panic err w
      | Inr config \<Rightarrow>
          (case getUserInfoAndCreds E w of
             (Inl err, w1) \<Rightarrow> log_Fatal err w1
           | (Inr (usr, password), w1) \<Rightarrow>
               (let userName = Username usr in
                case getUserHomeDir usr of
                  Inl err \<Rightarrow> log_Fatal err w1
                | Inr homeDir \<Rightarrow>
                    (let privateKeyPath = filepath_Join E [homeDir, ''/.ssh/'', FILE_PREFIX] in
                     case genKeyPair E privateKeyPath w1 of
                       (Inl err, w2) \<Rightarrow> log_Fatal err w2
                     | (Inr (signer, pubKeyFilename), w2) \<Rightarrow>
                         (case getCertFromTargetUrls E signer pubKeyFilename userName password
                                 (strings_Split (Gen_Cert_URLS (Base config)) (CHR '',''))
                                 None w2 of
                            ((cert, Some err), w3) \<Rightarrow> log_Fatal err w3
                          | ((None, None), w3) \<Rightarrow>
                              log_Fatal (Error ''Could not get cert from any url'') w3
                          | ((Some cert, None), w3) \<Rightarrow>
                              (let w4 = log_Printf ''Success'' [] w3;
                                   certPath = privateKeyPath @ ''-cert.pub'';
                                   w5 = snd (os_Remove E certPath w4);
                                   (err, w6) = ioutil_WriteFile E certPath cert 0x1A4 w5
                               in (0, w6)))))))"

subsection \<open>What a run leaves behind\<close>

text \<open>
  The targets the loop has logged as attempted, in order: the arguments of its
  \<open>attempting_fmt\<close> lines.
\<close>

fun attempted :: "log_call list \<Rightarrow> string list" where
  "attempted [] = []"
| "attempted (Printf f args # ls) =
     (if f = attempting_fmt then args @ attempted ls else attempted ls)"
| "attempted (l # ls) = attempted ls"

text \<open>
  The states of the files between two worlds: those recorded since the first, then the
  files of the second.
\<close>

definition fs_states :: "world \<Rightarrow> world \<Rightarrow> filesys list" where
  "fs_states w w' = drop (length (fs_hist w)) (fs_hist w') @ [fs w']"

text \<open>
  The certificate request in the words of the interface description: a POST to
  \<^verbatim>\<open>base/certgen/identity?type=certType\<close> with one file field \<^verbatim>\<open>pubkeyfile\<close> carrying the key
  material, and the session's cookies attached.
\<close>

definition certgen_request ::
  "env \<Rightarrow> string \<Rightarrow> string \<Rightarrow> string \<Rightarrow> string \<Rightarrow> cookie list \<Rightarrow> http_Request" where
  "certgen_request E baseUrl identity certType keyMaterial cookies =
     \<lparr>Method = ''POST'',
      URL = baseUrl @ ''/certgen/'' @ identity @ ''?type='' @ certType,
      ContentType = Some (''multipart/form-data; boundary='' @ multipart_boundary E),
      BasicAuth = None,
      ReqCookies = cookies,
      ReqBody = Some [\<lparr>fieldname = ''pubkeyfile'', filename = ''somefilename.pub'',
                       content = keyMaterial\<rparr>]\<rparr>"

definition login_request :: "string \<Rightarrow> string \<Rightarrow> bytes \<Rightarrow> http_Request" where
  "login_request baseUrl userName password =
     \<lparr>Method = ''POST'', URL = baseUrl @ ''/api/v0/login'', ContentType = None,
      BasicAuth = Some (userName, password), ReqCookies = [], ReqBody = None\<rparr>"

text \<open>
  The last request of world \<open>w\<close> is the SSH certificate request to \<open>baseUrl\<close>, and the
  environment answered it with status 200 and the body \<open>cert\<close>, read without error.
\<close>

definition ssh_answer ::
  "env \<Rightarrow> tls_Config \<Rightarrow> signer \<Rightarrow> string \<Rightarrow> string \<Rightarrow> bytes \<Rightarrow> world \<Rightarrow> bool" where
  "ssh_answer E tlsConfig signer userName baseUrl cert w =
     (case rev (sent w) of
        [] \<Rightarrow> False
      | r # before \<Rightarrow>
          (case authorizedKey signer of
             Inl err \<Rightarrow> False
           | Inr key \<Rightarrow>
               r = certgen_request E baseUrl userName ''ssh'' key (ReqCookies r) \<and>
               (case client_Do E \<lparr>TLSClientConfig = tlsConfig, Timeout = 5\<rparr> (rev before) r of
                  Inl err \<Rightarrow> False
                | Inr resp \<Rightarrow> StatusCode resp = 200 \<and> Body resp = (cert, None))))"

subsection \<open>A concrete environment\<close>

text \<open>
  Servers answer by URL from a table and refuse the connection for a URL that is not in
  it. The stand-in for the YAML parser reads the whole file as the URL list, the key is a
  fixed one, the user is \<^verbatim>\<open>bob\<close>.
\<close>

definition demo_signer :: signer where
  "demo_signer = \<lparr>pkcs1 = ''PRIV'', pkix = Inr ''DER'', authorizedKey = Inr ''ssh-rsa AAAA''\<rparr>"

definition table_Do ::
  "(string \<times> (error + http_Response)) list
     \<Rightarrow> http_Client \<Rightarrow> http_Request list \<Rightarrow> http_Request \<Rightarrow> error + http_Response" where
  "table_Do tbl client hist req =
     (case map_of tbl (URL req) of
        Some r \<Rightarrow> r
      | None \<Rightarrow> Inl (Error ''connection refused''))"

definition demo_env ::
  "(string \<times> (error + http_Response)) list \<Rightarrow> (fs_op \<Rightarrow> error option) \<Rightarrow> env" where
  "demo_env tbl faults =
     \<lparr>flag_config = ''config.yml'',
      yaml_Unmarshal = (\<lambda>src. Inr \<lparr>Base = \<lparr>Gen_Cert_URLS = src\<rparr>\<rparr>),
      user_Current = Inr \<lparr>Username = ''bob'', HomeDir = ''/home/bob''\<rparr>,
      gopass_GetPasswd = Inr ''pw'',
      rsa_GenerateKey = (\<lambda>bits. Inr demo_signer),
      pem_Encode = (\<lambda>blockType der. blockType @ '':'' @ der),
      filepath_Join = (\<lambda>parts. ''/home/bob/.ssh/fubar''),
      fs_fault = faults,
      multipart_boundary = ''xyz'',
      newRequest_err = (\<lambda>method url. None),
      client_Do = table_Do tbl\<rparr>"

definition no_faults :: "fs_op \<Rightarrow> error option" where
  "no_faults op = None"

definition demo_tls :: tls_Config where
  "demo_tls = \<lparr>RootCAs = None, MinVersion = 0x0303\<rparr>"

definition demo_client :: http_Client where
  "demo_client = \<lparr>TLSClientConfig = demo_tls, Timeout = 5\<rparr>"

text \<open>The world before the program starts: one file, the configuration; umask 022.\<close>

definition world0 :: "string \<Rightarrow> world" where
  "world0 cfg =
     \<lparr>sent = [], logged = [], printed = [],
      fs = \<lparr>files = [''config.yml'' \<mapsto> \<lparr>mode = 0x1A4, content_of = cfg\<rparr>], umask = 0x12\<rparr>,
      fs_hist = []\<rparr>"

definition answer :: "int \<Rightarrow> string \<Rightarrow> cookie list \<Rightarrow> bytes \<Rightarrow> error + http_Response" where
  "answer code status cookies body =
     Inr \<lparr>StatusCode = code, Status = status, Cookies = cookies, Body = (body, None)\<rparr>"

text \<open>A server that does everything right, under the base URL \<open>b\<close>.\<close>

definition good_server :: "string \<Rightarrow> bytes \<Rightarrow> (string \<times> (error + http_Response)) list" where
  "good_server b cert =
     [(b @ ''/api/v0/login'', answer 200 ''200 OK'' [(''auth'', ''tok'')] []),
      (b @ ''/certgen/bob?type=x509'', answer 200 ''200 OK'' [] ''X509'' ),
      (b @ ''/certgen/bob?type=ssh'', answer 200 ''200 OK'' [] cert)]"

text \<open>The failover controller run on a list of base URLs against a table of answers.\<close>

definition run_urls ::
  "(string \<times> (error + http_Response)) list \<Rightarrow> string list
     \<Rightarrow> (bytes option \<times> error option) \<times> world" where
  "run_urls tbl urls =
     getCertFromTargetUrls (demo_env tbl no_faults) demo_signer ''/home/bob/.ssh/fubar.pub''
       ''bob'' ''pw'' urls None (world0 [])"

text \<open>Server a answers the login with 403; server b does everything right.\<close>

definition login_403_then_good :: "(string \<times> (error + http_Response)) list" where
  "login_403_then_good =
     (''https://a/api/v0/login'', answer 403 ''403 Forbidden'' [] [])
     # good_server ''https://b'' ''CERT-B''"

text \<open>Server a logs the user in and answers the SSH request with 500; server b is good.\<close>

definition ssh_500_then_good :: "(string \<times> (error + http_Response)) list" where
  "ssh_500_then_good =
     [(''https://a/api/v0/login'', answer 200 ''200 OK'' [(''auth'', ''tok'')] []),
      (''https://a/certgen/bob?type=x509'', answer 200 ''200 OK'' [] ''X509''),
      (''https://a/certgen/bob?type=ssh'', answer 500 ''500 Internal Server Error'' [] [])]
     @ good_server ''https://b'' ''CERT-B''"

text \<open>Server a is unreachable, server b answers the login with 403, server c is good.\<close>

definition down_403_good :: "(string \<times> (error + http_Response)) list" where
  "down_403_good =
     (''https://b/api/v0/login'', answer 403 ''403 Forbidden'' [] [])
     # good_server ''https://c'' ''CERT-C''"

text \<open>
  Server a logs the user in and would answer the SSH request with a certificate, but the
  connection of the X.509 request fails.
\<close>

definition x509_down :: "(string \<times> (error + http_Response)) list" where
  "x509_down =
     [(''https://a/api/v0/login'', answer 200 ''200 OK'' [(''auth'', ''tok'')] []),
      (''https://a/certgen/bob?type=ssh'', answer 200 ''200 OK'' [] ''CERT-A'')]"

text \<open>Server a is unreachable; server b answers the login with 200 and no cookie.\<close>

definition no_cookie_b :: "(string \<times> (error + http_Response)) list" where
  "no_cookie_b = [(''https://b/api/v0/login'', answer 200 ''200 OK'' [] [])]"

section \<open>Properties\<close>

subsection \<open>Requests\<close>

lemma foldl_AddCookie: "foldl AddCookie req cs = req\<lparr>ReqCookies := ReqCookies req @ cs\<rparr>"
  by (induction cs arbitrary: req) (simp_all add: AddCookie_def)

lemma attempted_append: "attempted (xs @ ys) = attempted xs @ attempted ys"
  by (induction xs rule: attempted.induct) simp_all

text \<open>\<^verbatim>\<open>doCertRequest\<close> with the request and the worlds written out.\<close>

lemma doCertRequest_eq:
  "doCertRequest E client cookies url data w =
     (case newRequest_err E ''POST'' url of
        Some e \<Rightarrow> ((None, Some e), w)
      | None \<Rightarrow>
          (let req = \<lparr>Method = ''POST'', URL = url,
                       ContentType = Some (''multipart/form-data; boundary='' @ multipart_boundary E),
                       BasicAuth = None, ReqCookies = cookies,
                       ReqBody = Some [\<lparr>fieldname = ''pubkeyfile'', filename = ''somefilename.pub'',
                                        content = data\<rparr>]\<rparr>
           in case client_Do E client (sent w) req of
                Inl e \<Rightarrow> ((None, Some e),
                           w\<lparr>sent := sent w @ [req],
                             logged := logged w @ [Printf ''Failure to do x509 req'' []]\<rparr>)
              | Inr resp \<Rightarrow>
                  if StatusCode resp \<noteq> 200
                  then ((None, None),
                        w\<lparr>sent := sent w @ [req],
                          logged := logged w @ [Printf ''got error from call %s'' [Status resp]]\<rparr>)
                  else ((Some (fst (Body resp)), snd (Body resp)), w\<lparr>sent := sent w @ [req]\<rparr>)))"
  by (simp add: doCertRequest_def createKeyBodyRequest_def http_NewRequest_def Do_def
      foldl_AddCookie log_Printf_def Let_def split: option.splits sum.splits)

lemma doCertRequest_frame:
  "doCertRequest E client cookies url data w = (r, w') \<Longrightarrow>
     fs w' = fs w \<and> fs_hist w' = fs_hist w \<and> printed w' = printed w \<and>
     attempted (logged w') = attempted (logged w)"
  by (auto simp: doCertRequest_eq Let_def attempted_append attempting_fmt_def
      split: option.splits sum.splits if_splits)

lemma doCertRequest_Some:
  "doCertRequest E client cookies (baseUrl @ ''/certgen/'' @ identity @ ''?type='' @ certType) data w
       = ((Some c, None), w') \<Longrightarrow>
     sent w' = sent w @ [certgen_request E baseUrl identity certType data cookies] \<and>
     (\<exists>resp. client_Do E client (sent w)
               (certgen_request E baseUrl identity certType data cookies) = Inr resp \<and>
            StatusCode resp = 200 \<and> Body resp = (c, None))"
  by (auto simp: doCertRequest_eq Let_def certgen_request_def prod_eq_iff
      split: option.splits sum.splits if_splits)

lemma getCertsFromServer_frame:
  "getCertsFromServer E signer userName password baseUrl tlsConfig w = (r, w') \<Longrightarrow>
     fs w' = fs w \<and> fs_hist w' = fs_hist w \<and> printed w' = printed w \<and>
     attempted (logged w') = attempted (logged w)"
  unfolding getCertsFromServer_def http_NewRequest_def Do_def Let_def log_Printf_def log_Println_def
  by (auto simp: attempted_append attempting_fmt_def
      split: option.splits sum.splits if_splits prod.splits dest!: doCertRequest_frame)

lemma getCertsFromServer_ssh:
  "getCertsFromServer E signer userName password baseUrl tlsConfig w =
             ((Some cert, x509Cert, None), w') \<Longrightarrow>
   ssh_answer E tlsConfig signer userName baseUrl cert w'"
  unfolding getCertsFromServer_def http_NewRequest_def Do_def Let_def log_Printf_def log_Println_def
  by (auto simp: ssh_answer_def certgen_request_def
      split: option.splits sum.splits if_splits prod.splits
      dest!: doCertRequest_Some[where certType="''ssh''", simplified])

subsection \<open>The failover loop\<close>

lemma loop_frame:
  "targetUrls_loop E signer userName password tlsConfig urls w = (r, w') \<Longrightarrow>
     fs w' = fs w \<and> fs_hist w' = fs_hist w \<and> printed w' = printed w"
proof (induction urls arbitrary: w)
  case Nil
  then show ?case by simp
next
  case (Cons baseUrl rest)
  let ?w1 = "log_Printf attempting_fmt [baseUrl @ userName] w"
  obtain sshCert x509Cert err w2 where
    g: "getCertsFromServer E signer userName password baseUrl tlsConfig ?w1 =
          ((sshCert, x509Cert, err), w2)"
    by (metis prod.collapse)
  have f2: "fs w2 = fs w" "fs_hist w2 = fs_hist w" "printed w2 = printed w"
    using getCertsFromServer_frame[OF g] by (simp_all add: log_Printf_def)
  show ?case
  proof (cases err)
    case None
    with Cons.prems g f2 show ?thesis by (auto simp: Let_def)
  next
    case (Some e)
    with Cons.prems g
    have "targetUrls_loop E signer userName password tlsConfig rest (log_Println e w2) = (r, w')"
      by (simp add: Let_def)
    from Cons.IH[OF this] f2 show ?thesis by (simp add: log_Println_def)
  qed
qed

lemma loop_result:
  "targetUrls_loop E signer userName password tlsConfig urls w = ((ok, cert), w') \<Longrightarrow>
     \<exists>k\<le>length urls.
        attempted (logged w') = attempted (logged w) @ map (\<lambda>b. b @ userName) (take k urls) \<and>
        (if ok
         then 0 < k \<and> (\<forall>c. cert = Some c \<longrightarrow>
                          ssh_answer E tlsConfig signer userName (urls ! (k - 1)) c w')
         else k = length urls \<and> cert = None)"
proof (induction urls arbitrary: w)
  case Nil
  then show ?case by auto
next
  case (Cons baseUrl rest)
  let ?w1 = "log_Printf attempting_fmt [baseUrl @ userName] w"
  obtain sshCert x509Cert err w2 where
    g: "getCertsFromServer E signer userName password baseUrl tlsConfig ?w1 =
          ((sshCert, x509Cert, err), w2)"
    by (metis prod.collapse)
  have a2: "attempted (logged w2) = attempted (logged w) @ [baseUrl @ userName]"
    using getCertsFromServer_frame[OF g] by (simp add: log_Printf_def attempted_append)
  show ?case
  proof (cases err)
    case None
    with Cons.prems g have r: "ok" "cert = sshCert" "w' = w2"
      by (simp_all add: Let_def)
    have "\<forall>c. cert = Some c \<longrightarrow> ssh_answer E tlsConfig signer userName baseUrl c w'"
      using getCertsFromServer_ssh g None r by blast
    with r a2 show ?thesis
      by (intro exI[of _ 1]) simp
  next
    case (Some e)
    with Cons.prems g
    have "targetUrls_loop E signer userName password tlsConfig rest (log_Println e w2) = ((ok, cert), w')"
      by (simp add: Let_def)
    from Cons.IH[OF this] obtain k where k: "k \<le> length rest"
      "attempted (logged w') = attempted (logged (log_Println e w2)) @ map (\<lambda>b. b @ userName) (take k rest)"
      "if ok then 0 < k \<and> (\<forall>c. cert = Some c \<longrightarrow>
                          ssh_answer E tlsConfig signer userName (rest ! (k - 1)) c w')
         else k = length rest \<and> cert = None"
      by blast
    have "attempted (logged (log_Println e w2)) = attempted (logged w) @ [baseUrl @ userName]"
      using a2 by (simp add: log_Println_def attempted_append)
    with k show ?thesis
      by (intro exI[of _ "Suc k"]) (auto split: if_splits)
  qed
qed

subsection \<open>A status other than 200 ends the failover\<close>

text \<open>
  C1. The claim: when the SSH certificate request of candidate i fails, by its status or
  by a transport error, the controller takes candidate i as failed and goes on to
  candidate i+1. The code does so for a transport error only. On a status other than 200
  \<^verbatim>\<open>doCertRequest\<close> returns \<^verbatim>\<open>nil, err\<close> with a nil \<^verbatim>\<open>err\<close>, so the loop takes the candidate
  as a success with a nil certificate. Here the first server answers the SSH request with
  500 and the second would have issued \<^verbatim>\<open>CERT-B\<close>: the controller returns no certificate and
  no error, and has sent nothing to the second server.
\<close>

theorem C1_ssh_status_ends_failover:
  "fst (run_urls ssh_500_then_good [''https://a'', ''https://b'']) = (None, None) \<and>
   map URL (sent (snd (run_urls ssh_500_then_good [''https://a'', ''https://b'']))) =
     [''https://a/api/v0/login'', ''https://a/certgen/bob?type=x509'',
      ''https://a/certgen/bob?type=ssh''] \<and>
   fst (run_urls ssh_500_then_good [''https://b'']) = (Some ''CERT-B'', None)"
  by code_simp

text \<open>
  C2. The claim: a login succeeds exactly when the answer has status 200 and at least one
  cookie, and otherwise the attempt returns an error and the controller goes on to the
  next candidate. A login answered without cookies does return an error; a login answered
  with another status returns \<^verbatim>\<open>nil, nil, err\<close> with a nil \<^verbatim>\<open>err\<close>. Here the first server
  answers the login with 403 and the second is good: the controller stops at the first,
  with no certificate and no error.
\<close>

theorem C2_login_status_ends_failover:
  "fst (run_urls login_403_then_good [''https://a'', ''https://b'']) = (None, None) \<and>
   map URL (sent (snd (run_urls login_403_then_good [''https://a'', ''https://b'']))) =
     [''https://a/api/v0/login''] \<and>
   fst (run_urls login_403_then_good [''https://b'']) = (Some ''CERT-B'', None)"
  by code_simp

text \<open>
  C4. The claim: when candidate k is the first whose login and SSH retrieval succeed, the
  controller contacts candidates 1..k in order, returns the certificate of candidate k
  and contacts no later one. Here k = 3: the first server is unreachable, the second
  answers the login with 403, the third is good. The controller tries the first two in
  order and stops at the second, with no certificate and no error; the third is never
  tried.
\<close>

theorem C4_first_success_not_reached:
  "fst (run_urls down_403_good [''https://a'', ''https://b'', ''https://c'']) = (None, None) \<and>
   attempted (logged (snd (run_urls down_403_good [''https://a'', ''https://b'', ''https://c''])))
     = [''https://abob'', ''https://bbob''] \<and>
   map URL (sent (snd (run_urls down_403_good [''https://a'', ''https://b'', ''https://c'']))) =
     [''https://a/api/v0/login'', ''https://b/api/v0/login''] \<and>
   fst (run_urls down_403_good [''https://c'']) = (Some ''CERT-C'', None)"
  by code_simp

subsection \<open>The X.509 request\<close>

text \<open>
  C3, as the claim states it: a failed X.509 request does not fail the candidate, and the
  SSH request is still made. It is false for a transport error: \<^verbatim>\<open>getCertsFromServer\<close>
  returns as soon as \<^verbatim>\<open>doCertRequest\<close> returns an error for the X.509 request. Here the
  login succeeds, the connection of the X.509 request is refused, and the SSH request,
  had it been made, would have been answered with \<^verbatim>\<open>CERT-A\<close>.
\<close>

theorem C3_x509_error_tolerated_counterexample:
  "fst (getCertsFromServer (demo_env x509_down no_faults) demo_signer ''bob'' ''pw'' ''https://a''
          demo_tls (world0 [])) = (None, None, Some (Error ''connection refused'')) \<and>
   map URL (sent (snd (getCertsFromServer (demo_env x509_down no_faults) demo_signer ''bob'' ''pw''
          ''https://a'' demo_tls (world0 [])))) =
     [''https://a/api/v0/login'', ''https://a/certgen/bob?type=x509''] \<and>
   fst (doCertRequest (demo_env x509_down no_faults) demo_client [(''auth'', ''tok'')]
          ''https://a/certgen/bob?type=ssh'' ''ssh-rsa AAAA'' (world0 [])) = (Some ''CERT-A'', None) \<and>
   fst (run_urls x509_down [''https://a'']) = (None, Some (Error ''Failed to get creds''))"
  by code_simp

text \<open>
  C3, amended: for a candidate whose login succeeds (status 200 and a cookie), a transport
  error of the X.509 certificate request fails the candidate. \<^verbatim>\<open>getCertsFromServer\<close> returns
  that error, the SSH request is not made (the login and the X.509 request are all that
  was sent), and the loop goes on with the remaining candidates.
\<close>

theorem C3_x509_transport_error_fails_candidate:
  assumes "newRequest_err E ''POST'' (baseUrl @ ''/api/v0/login'') = None"
    and "client_Do E \<lparr>TLSClientConfig = tlsConfig, Timeout = 5\<rparr> (sent w)
           (login_request baseUrl userName password) = Inr loginResp"
    and "StatusCode loginResp = 200"
    and "Cookies loginResp \<noteq> []"
    and "pkix signer = Inr derKey"
    and "newRequest_err E ''POST'' (baseUrl @ ''/certgen/'' @ userName @ ''?type=x509'') = None"
    and "client_Do E \<lparr>TLSClientConfig = tlsConfig, Timeout = 5\<rparr>
           (sent w @ [login_request baseUrl userName password])
           (certgen_request E baseUrl userName ''x509'' (pem_Encode E ''PUBLIC KEY'' derKey)
              (Cookies loginResp)) = Inl err"
  shows "\<exists>w'. sent w' = sent w @ [login_request baseUrl userName password,
                    certgen_request E baseUrl userName ''x509''
                      (pem_Encode E ''PUBLIC KEY'' derKey) (Cookies loginResp)] \<and>
              fst (getCertsFromServer E signer userName password baseUrl tlsConfig w)
                = (None, None, Some err) \<and>
              sent (snd (getCertsFromServer E signer userName password baseUrl tlsConfig w))
                = sent w' \<and>
              targetUrls_loop E signer userName password tlsConfig (baseUrl # rest) w
                = targetUrls_loop E signer userName password tlsConfig rest w'"
proof -
  let ?login = "login_request baseUrl userName password"
  let ?x509 = "certgen_request E baseUrl userName ''x509'' (pem_Encode E ''PUBLIC KEY'' derKey)
                 (Cookies loginResp)"
  have g: "\<And>v. sent v = sent w \<Longrightarrow>
      getCertsFromServer E signer userName password baseUrl tlsConfig v =
        ((None, None, Some err),
         v\<lparr>sent := sent w @ [?login, ?x509],
           logged := logged v @ [Printf ''Failure to do x509 req'' []]\<rparr>)"
    using assms
    by (simp add: getCertsFromServer_def http_NewRequest_def Do_def Let_def doCertRequest_eq
        login_request_def certgen_request_def)
  let ?w1 = "log_Printf attempting_fmt [baseUrl @ userName] w"
  have s1: "sent ?w1 = sent w" by (simp add: log_Printf_def)
  let ?w' = "log_Println err (?w1\<lparr>sent := sent w @ [?login, ?x509],
           logged := logged ?w1 @ [Printf ''Failure to do x509 req'' []]\<rparr>)"
  have "sent ?w' = sent w @ [?login, ?x509]" by (simp add: log_Println_def)
  moreover have "fst (getCertsFromServer E signer userName password baseUrl tlsConfig w)
                = (None, None, Some err)"
    by (simp add: g)
  moreover have "sent (snd (getCertsFromServer E signer userName password baseUrl tlsConfig w))
                = sent w @ [?login, ?x509]"
    by (simp add: g)
  moreover have "targetUrls_loop E signer userName password tlsConfig (baseUrl # rest) w
                = targetUrls_loop E signer userName password tlsConfig rest ?w'"
    by (simp add: g[OF s1] Let_def)
  ultimately show ?thesis by (intro exI[of _ ?w']) simp
qed

text \<open>The amended C3 at the environment of the counterexample.\<close>

theorem C3_x509_transport_error_witness:
  "\<exists>w'. sent w' = [login_request ''https://a'' ''bob'' ''pw'',
                    certgen_request (demo_env x509_down no_faults) ''https://a'' ''bob'' ''x509''
                      ''PUBLIC KEY:DER'' [(''auth'', ''tok'')]] \<and>
         targetUrls_loop (demo_env x509_down no_faults) demo_signer ''bob'' ''pw'' demo_tls
              [''https://a'', ''https://b''] (world0 [])
           = targetUrls_loop (demo_env x509_down no_faults) demo_signer ''bob'' ''pw'' demo_tls
              [''https://b''] w'"
proof -
  let ?E = "demo_env x509_down no_faults"
  let ?resp = "\<lparr>StatusCode = 200, Status = ''200 OK'', Cookies = [(''auth'', ''tok'')],
                 Body = ([], None)\<rparr>"
  have h1: "newRequest_err ?E ''POST'' (''https://a'' @ ''/api/v0/login'') = None"
    by (simp add: demo_env_def)
  have h2: "client_Do ?E \<lparr>TLSClientConfig = demo_tls, Timeout = 5\<rparr> (sent (world0 []))
              (login_request ''https://a'' ''bob'' ''pw'') = Inr ?resp"
    by code_simp
  have h3: "StatusCode ?resp = 200" by simp
  have h4: "Cookies ?resp \<noteq> []" by simp
  have h5: "pkix demo_signer = Inr ''DER''" by (simp add: demo_signer_def)
  have h6: "newRequest_err ?E ''POST'' (''https://a'' @ ''/certgen/'' @ ''bob'' @ ''?type=x509'') = None"
    by (simp add: demo_env_def)
  have h7: "client_Do ?E \<lparr>TLSClientConfig = demo_tls, Timeout = 5\<rparr>
           (sent (world0 []) @ [login_request ''https://a'' ''bob'' ''pw''])
           (certgen_request ?E ''https://a'' ''bob'' ''x509'' (pem_Encode ?E ''PUBLIC KEY'' ''DER'')
              (Cookies ?resp)) = Inl (Error ''connection refused'')"
    by code_simp
  have p: "pem_Encode ?E ''PUBLIC KEY'' ''DER'' = ''PUBLIC KEY:DER''"
    by (simp add: demo_env_def)
  have s: "sent (world0 []) = []" by (simp add: world0_def)
  from C3_x509_transport_error_fails_candidate[OF h1 h2 h3 h4 h5 h6 h7, of "[''https://b'']"]
  show ?thesis unfolding p s by auto
qed

subsection \<open>Exhausted candidates\<close>

text \<open>
  C5, as the claim states it: the failure returned after N failed candidates aggregates
  the N attempts. It does not: the failure is one fixed error. For one failed candidate
  and for two, failing for different reasons, the controller returns the same value; the
  errors of the candidates are in the log only.
\<close>

theorem C5_failure_aggregates_counterexample:
  "fst (run_urls no_cookie_b [''https://a'']) = (None, Some (Error ''Failed to get creds'')) \<and>
   fst (run_urls no_cookie_b [''https://a'', ''https://b'']) = (None, Some (Error ''Failed to get creds'')) \<and>
   logged (snd (run_urls no_cookie_b [''https://a'', ''https://b''])) =
     [Printf attempting_fmt [''https://abob''],
      Printf ''got error from req'' [], Println ''connection refused'', Println ''connection refused'',
      Printf attempting_fmt [''https://bbob''],
      Println ''No cookies from login'',
      Printf ''failed to get creds'' []]"
  by code_simp

text \<open>
  C5, amended: for every candidate list of length N, when the controller returns a
  failure it has attempted every one of the N candidates, in the order of the list, and
  returns no certificate; the failure is the fixed error \<^verbatim>\<open>Failed to get creds\<close>, which
  carries nothing of the attempts.
\<close>

theorem C5_failure_after_all_attempts:
  assumes "getCertFromTargetUrls E signer pubKeyFilename userName password targetUrls rootCAs w
             = ((cert, Some err), w')"
  shows "err = Error ''Failed to get creds'' \<and> cert = None \<and>
         attempted (logged w') = attempted (logged w) @ map (\<lambda>b. b @ userName) targetUrls"
proof -
  let ?tls = "\<lparr>RootCAs = rootCAs, MinVersion = 0x0303\<rparr>"
  obtain ok c w1 where l: "targetUrls_loop E signer userName password ?tls targetUrls w = ((ok, c), w1)"
    by (metis prod.collapse)
  with assms have r: "\<not> ok" "err = Error ''Failed to get creds''" "cert = None"
    "w' = log_Printf ''failed to get creds'' [] w1"
    by (auto simp: getCertFromTargetUrls_def Let_def split: if_splits)
  from loop_result[OF l] r(1)
  have "attempted (logged w1) = attempted (logged w) @ map (\<lambda>b. b @ userName) targetUrls"
    by auto
  with r show ?thesis
    by (simp add: log_Printf_def attempted_append attempting_fmt_def)
qed

text \<open>The amended C5 on two candidates that both fail.\<close>

theorem C5_failure_after_all_attempts_witness:
  "attempted (logged (snd (run_urls no_cookie_b [''https://a'', ''https://b''])))
     = attempted (logged (world0 [])) @ map (\<lambda>b. b @ ''bob'') [''https://a'', ''https://b'']"
proof -
  have "fst (run_urls no_cookie_b [''https://a'', ''https://b''])
          = (None, Some (Error ''Failed to get creds''))"
    by code_simp
  then have "getCertFromTargetUrls (demo_env no_cookie_b no_faults) demo_signer
       ''/home/bob/.ssh/fubar.pub'' ''bob'' ''pw'' [''https://a'', ''https://b''] None (world0 [])
     = ((None, Some (Error ''Failed to get creds'')),
        snd (run_urls no_cookie_b [''https://a'', ''https://b'']))"
    by (simp add: run_urls_def prod_eq_iff)
  from C5_failure_after_all_attempts[OF this] show ?thesis by simp
qed

subsection \<open>The certificate request on the wire\<close>

text \<open>
  What one run of \<^verbatim>\<open>getCertsFromServer\<close> sends: nothing, the login, or the login followed by
  the X.509 request and then the SSH request, both built by \<^verbatim>\<open>doCertRequest\<close>.
\<close>

lemma doCertRequest_sent:
  "doCertRequest E client cookies (baseUrl @ ''/certgen/'' @ identity @ ''?type='' @ certType) data w
       = (r, w') \<Longrightarrow>
     sent w' = sent w \<and> snd r \<noteq> None \<or>
     sent w' = sent w @ [certgen_request E baseUrl identity certType data cookies]"
  by (auto simp: doCertRequest_eq Let_def certgen_request_def
      split: option.splits sum.splits if_splits)

lemma getCertsFromServer_sent:
  "getCertsFromServer E signer userName password baseUrl tlsConfig w = (res, w') \<Longrightarrow>
     sent w' = sent w \<or>
     sent w' = sent w @ [login_request baseUrl userName password] \<or>
     (\<exists>loginResp der.
         client_Do E \<lparr>TLSClientConfig = tlsConfig, Timeout = 5\<rparr> (sent w)
           (login_request baseUrl userName password) = Inr loginResp \<and>
         pkix signer = Inr der \<and>
         (sent w' = sent w @
            [login_request baseUrl userName password,
             certgen_request E baseUrl userName ''x509'' (pem_Encode E ''PUBLIC KEY'' der)
               (Cookies loginResp)] \<or>
          (\<exists>key. authorizedKey signer = Inr key \<and>
             sent w' = sent w @
               [login_request baseUrl userName password,
                certgen_request E baseUrl userName ''x509'' (pem_Encode E ''PUBLIC KEY'' der)
                  (Cookies loginResp),
                certgen_request E baseUrl userName ''ssh'' key (Cookies loginResp)])))"
  unfolding getCertsFromServer_def http_NewRequest_def Do_def Let_def log_Printf_def log_Println_def
  by (auto simp: login_request_def
      split: option.splits sum.splits if_splits prod.splits
      dest!: doCertRequest_sent[where certType="''ssh''", simplified]
             doCertRequest_sent[where certType="''x509''", simplified])

lemma doCertRequest_200:
  assumes "newRequest_err E ''POST'' (baseUrl @ ''/certgen/'' @ identity @ ''?type='' @ certType) = None"
    and "client_Do E client (sent w) (certgen_request E baseUrl identity certType keyMaterial cookies)
           = Inr resp"
    and "StatusCode resp = 200"
  shows "doCertRequest E client cookies (baseUrl @ ''/certgen/'' @ identity @ ''?type='' @ certType)
           keyMaterial w
         = ((Some (fst (Body resp)), snd (Body resp)),
            w\<lparr>sent := sent w @ [certgen_request E baseUrl identity certType keyMaterial cookies]\<rparr>)"
  using assms by (simp add: doCertRequest_eq Let_def certgen_request_def)

text \<open>
  C8. Every certificate request is a POST to \<^verbatim>\<open>baseUrl/certgen/identity?type=certType\<close>
  whose body is a multipart form with the one file field \<^verbatim>\<open>pubkeyfile\<close> carrying the key
  material, with every cookie of the login response attached; on status 200 its result is
  the body of the response as \<^verbatim>\<open>ioutil.ReadAll\<close> returns it. First conjunct: every request
  \<^verbatim>\<open>getCertsFromServer\<close> sends after the login is \<open>certgen_request\<close> for type \<^verbatim>\<open>x509\<close> with the
  PEM of the public key, then for type \<^verbatim>\<open>ssh\<close> with the authorized-key line, both with the
  cookies of the login response. Second conjunct: \<^verbatim>\<open>doCertRequest\<close> sends exactly that request
  and, on status 200, returns the bytes read from the body.
\<close>

theorem C8_certificate_requests:
  "(getCertsFromServer E signer userName password baseUrl tlsConfig w = (res, w') \<longrightarrow>
      sent w' = sent w \<or>
      sent w' = sent w @ [login_request baseUrl userName password] \<or>
      (\<exists>loginResp der.
         client_Do E \<lparr>TLSClientConfig = tlsConfig, Timeout = 5\<rparr> (sent w)
           (login_request baseUrl userName password) = Inr loginResp \<and>
         pkix signer = Inr der \<and>
         (sent w' = sent w @
            [login_request baseUrl userName password,
             certgen_request E baseUrl userName ''x509'' (pem_Encode E ''PUBLIC KEY'' der)
               (Cookies loginResp)] \<or>
          (\<exists>key. authorizedKey signer = Inr key \<and>
             sent w' = sent w @
               [login_request baseUrl userName password,
                certgen_request E baseUrl userName ''x509'' (pem_Encode E ''PUBLIC KEY'' der)
                  (Cookies loginResp),
                certgen_request E baseUrl userName ''ssh'' key (Cookies loginResp)])))) \<and>
   (newRequest_err E ''POST'' (baseUrl @ ''/certgen/'' @ userName @ ''?type='' @ certType) = None \<longrightarrow>
    client_Do E client (sent v) (certgen_request E baseUrl userName certType keyMaterial cookies)
      = Inr resp \<longrightarrow>
    StatusCode resp = 200 \<longrightarrow>
    doCertRequest E client cookies (baseUrl @ ''/certgen/'' @ userName @ ''?type='' @ certType)
      keyMaterial v
    = ((Some (fst (Body resp)), snd (Body resp)),
       v\<lparr>sent := sent v @ [certgen_request E baseUrl userName certType keyMaterial cookies]\<rparr>))"
  using getCertsFromServer_sent[of E signer userName password baseUrl tlsConfig w res w']
    doCertRequest_200[of E baseUrl userName certType client v keyMaterial cookies resp]
  by blast

text \<open>C8 at a server that does everything right.\<close>

theorem C8_certificate_requests_witness:
  "map URL (sent (snd (getCertsFromServer (demo_env (good_server ''https://a'' ''CERT-A'') no_faults)
                         demo_signer ''bob'' ''pw'' ''https://a'' demo_tls (world0 []))))
     \<in> {[], [''https://a/api/v0/login''],
         [''https://a/api/v0/login'', ''https://a/certgen/bob?type=x509''],
         [''https://a/api/v0/login'', ''https://a/certgen/bob?type=x509'',
          ''https://a/certgen/bob?type=ssh'']} \<and>
   fst (doCertRequest (demo_env (good_server ''https://a'' ''CERT-A'') no_faults) demo_client
          [(''auth'', ''tok'')] ''https://a/certgen/bob?type=ssh'' ''ssh-rsa AAAA'' (world0 []))
     = (Some ''CERT-A'', None)"
proof -
  let ?E = "demo_env (good_server ''https://a'' ''CERT-A'') no_faults"
  let ?g = "getCertsFromServer ?E demo_signer ''bob'' ''pw'' ''https://a'' demo_tls (world0 [])"
  let ?resp = "\<lparr>StatusCode = 200, Status = ''200 OK'', Cookies = [], Body = (''CERT-A'', None)\<rparr>"
  note c8 = C8_certificate_requests[of ?E demo_signer "''bob''" "''pw''" "''https://a''" demo_tls
      "world0 []" "fst ?g" "snd ?g" "''ssh''" demo_client "world0 []" "''ssh-rsa AAAA''"
      "[(''auth'', ''tok'')]" ?resp]
  have h0: "?g = (fst ?g, snd ?g)" by simp
  have h1: "newRequest_err ?E ''POST'' (''https://a'' @ ''/certgen/'' @ ''bob'' @ ''?type='' @ ''ssh'') = None"
    by (simp add: demo_env_def)
  have h2: "client_Do ?E demo_client (sent (world0 []))
              (certgen_request ?E ''https://a'' ''bob'' ''ssh'' ''ssh-rsa AAAA'' [(''auth'', ''tok'')])
            = Inr ?resp"
    by code_simp
  have h3: "StatusCode ?resp = 200" by simp
  have s: "sent (world0 []) = []" by (simp add: world0_def)
  from c8[THEN conjunct1, rule_format, OF h0]
  have a: "map URL (sent (snd ?g))
     \<in> {[], [''https://a/api/v0/login''],
         [''https://a/api/v0/login'', ''https://a/certgen/bob?type=x509''],
         [''https://a/api/v0/login'', ''https://a/certgen/bob?type=x509'',
          ''https://a/certgen/bob?type=ssh'']}"
    unfolding s by (auto simp: login_request_def certgen_request_def)
  from c8[THEN conjunct2, rule_format, OF h1 h2 h3]
  have b: "fst (doCertRequest ?E demo_client [(''auth'', ''tok'')] ''https://a/certgen/bob?type=ssh''
               ''ssh-rsa AAAA'' (world0 [])) = (Some ''CERT-A'', None)"
    by simp
  from a b show ?thesis by blast
qed

subsection \<open>The private key file\<close>

lemma os_Remove_hist:
  "fs_hist (snd (os_Remove E name w)) = fs_hist w @ [fs w]"
  by (simp add: os_Remove_def fs_step_def split: option.splits)

text \<open>
  C7, as the claim states it: the private key file is never group- or world-readable at
  any point after its creation. It is, between \<^verbatim>\<open>os.Create\<close> and \<^verbatim>\<open>Chmod\<close>: with umask 022
  and no file there before (state 2), the file just created (state 3) has mode 0644
  (\<open>0x1A4\<close>), which has the group and world read bits 044 (\<open>0x24\<close>). It is empty then.
\<close>

theorem C7_never_readable_counterexample:
  "files (fs_states (world0 [])
            (snd (genKeyPair (demo_env [] no_faults) ''/home/bob/.ssh/fubar'' (world0 []))) ! 2)
      ''/home/bob/.ssh/fubar'' = None \<and>
   files (fs_states (world0 [])
            (snd (genKeyPair (demo_env [] no_faults) ''/home/bob/.ssh/fubar'' (world0 []))) ! 3)
      ''/home/bob/.ssh/fubar'' = Some \<lparr>mode = 0x1A4, content_of = []\<rparr> \<and>
   (0x1A4 :: 32 word) AND 0x24 = 0x24"
  by code_simp

text \<open>
  C7, amended: during key pair generation the mode of the private key file is set to 0600
  before any byte is written to it. In every state from its creation on the file exists
  and is empty or has mode 0600, and once \<^verbatim>\<open>Chmod\<close> has succeeded it has mode 0600 in every
  state to the end of \<^verbatim>\<open>genKeyPair\<close>. (Between \<^verbatim>\<open>os.Create\<close> and \<^verbatim>\<open>Chmod\<close> the empty file has the
  mode \<^verbatim>\<open>os.Create\<close> gave it.) The states of one run are \<open>fs_states w w'\<close>: before each of the
  two removals, before \<^verbatim>\<open>os.Create\<close> (state 2), after it (state 3), after \<^verbatim>\<open>Chmod\<close> (state 4),
  and so on.
\<close>

theorem C7_mode_0600_before_bytes:
  assumes "rsa_GenerateKey E RSA_KEY_SIZE = Inr key"
    and "fs_fault E (OpCreate path) = None"
    and "genKeyPair E path w = (r, w')"
  shows "3 < length (fs_states w w') \<and>
         (\<forall>s\<in>set (drop 3 (fs_states w w')).
            \<exists>f. files s path = Some f \<and> (content_of f \<noteq> [] \<longrightarrow> mode f = 0x180)) \<and>
         (fs_fault E (OpChmod path 0x180) = None \<longrightarrow>
            (\<forall>s\<in>set (drop 4 (fs_states w w')). \<exists>f. files s path = Some f \<and> mode f = 0x180))"
proof -
  let ?w1 = "snd (os_Remove E path w)"
  let ?w2 = "snd (os_Remove E (path @ ''.pub'') ?w1)"
  have h2: "fs_hist ?w2 = fs_hist w @ [fs w, fs ?w1]"
    by (simp add: os_Remove_hist)
  from assms(3) have g: "(case os_Create E path ?w2 of
                (Some err, w3) \<Rightarrow> (Inl err, log_Printf ''Failed to save privkey'' [] w3)
              | (None, w3) \<Rightarrow>
                  (case File_Chmod E path 0x180 w3 of
                     (Some err, w4) \<Rightarrow> (Inl err, log_Printf ''Failed to change file mode'' [] w4)
                   | (None, w4) \<Rightarrow>
                       (case pem_Encode_to E path ''RSA PRIVATE KEY''
                               (pkcs1 key) w4 of
                          (Some err, w5) \<Rightarrow> (Inl err, w5)
                        | (None, w5) \<Rightarrow>
                            (case authorizedKey key of
                               Inl err \<Rightarrow> (Inl err, w5)
                             | Inr pub \<Rightarrow>
                                 (case ioutil_WriteFile E (path @ ''.pub'') pub 0x1A4 w5 of
                                    (Some err, w6) \<Rightarrow> (Inl err, w6)
                                  | (None, w6) \<Rightarrow> (Inr (key, path @ ''.pub''), w6)))))) = (r, w')"
    by (simp add: genKeyPair_def assms(1) Let_def)
  show ?thesis
    using g assms(2) h2
    by (auto simp: fs_states_def os_Create_def File_Chmod_def pem_Encode_to_def ioutil_WriteFile_def
        fs_step_def log_Printf_def
        split: option.splits sum.splits if_splits)
qed


text \<open>The amended C7 on a run without faults: the last of the seven states.\<close>

theorem C7_mode_0600_before_bytes_witness:
  "\<exists>f. files (fs_states (world0 [])
               (snd (genKeyPair (demo_env [] no_faults) ''/home/bob/.ssh/fubar'' (world0 []))) ! 6)
           ''/home/bob/.ssh/fubar'' = Some f \<and> mode f = 0x180"
proof -
  let ?E = "demo_env [] no_faults"
  let ?p = "''/home/bob/.ssh/fubar''"
  let ?g = "genKeyPair ?E ?p (world0 [])"
  let ?tr = "fs_states (world0 []) (snd ?g)"
  have h1: "rsa_GenerateKey ?E RSA_KEY_SIZE = Inr demo_signer" by (simp add: demo_env_def)
  have h2: "fs_fault ?E (OpCreate ?p) = None" by (simp add: demo_env_def no_faults_def)
  have h3: "?g = (fst ?g, snd ?g)" by simp
  have h4: "fs_fault ?E (OpChmod ?p 0x180) = None" by (simp add: demo_env_def no_faults_def)
  have len: "length ?tr = 7" by code_simp
  then have "?tr ! 6 \<in> set (drop 4 ?tr)"
    by (simp add: set_conv_nth) (rule exI[of _ 2], simp)
  with C7_mode_0600_before_bytes[OF h1 h2 h3] h4 show ?thesis by blast
qed

end
